theory Spec2Isabelle
  imports Complex_Main
begin

section \<open>The alert hook: \<^verbatim>\<open>client/src/hooks/useSOSAlerts.js\<close>\<close>

text \<open>
  The hook is modelled by explicit state passing. A value of type \<open>hook\<close> holds the
  four pieces of React state, the \<open>pollIntervalRef\<close> reference, the interval timers
  the browser currently runs (handle and period in milliseconds), and the trace of
  observable effects (requests, toasts, console output) in the order the code issues
  them.

  Every \<^verbatim>\<open>await\<close> is a point where the environment answers: the answer is an argument
  of the model, of type \<open>'a outcome\<close>, with \<open>Inl\<close> for a rejected promise and \<open>Inr\<close> for
  a fulfilled one. Each asynchronous function of the source is split at its
  \<^verbatim>\<open>await\<close>s into the part that issues the request and the part that runs when the
  promise settles; the function itself is their composition.
\<close>

subsection \<open>Data\<close>

datatype error = Error string

type_synonym 'a outcome = "error + 'a"

text \<open>A JavaScript number as far as the hook looks at it: a finite value or NaN.\<close>

datatype number = Num rat | NaN

text \<open>The location object: \<^verbatim>\<open>{lat, lng, address?}\<close>; \<open>None\<close> is an absent address.\<close>

record location_data =
  lat :: rat
  lng :: rat
  address :: "string option"

datatype alert_status = Active | Acknowledged | Resolved

text \<open>
  An alert object as the server returns it. The hook reads \<^verbatim>\<open>id\<close> and
  \<^verbatim>\<open>is_test\<close> only; \<^verbatim>\<open>is_test\<close> may be missing, hence the option.
\<close>

record alert =
  alert_id :: nat
  alert_status :: alert_status
  alert_is_test :: "bool option"
  alert_location :: "location_data option"

text \<open>The argument of \<^verbatim>\<open>triggerAlert\<close>; \<open>None\<close> is a missing (undefined) option.\<close>

record options =
  isTest :: "bool option"
  location :: "location_data option"
  batteryLevel :: "number option"
  connectionStatus :: "string option"

text \<open>The payload \<^verbatim>\<open>alertData\<close> sent by \<^verbatim>\<open>sosApi.createAlert\<close>; \<open>None\<close> is \<^verbatim>\<open>null\<close>.\<close>

record alertData =
  is_test :: bool
  location :: "location_data option"
  battery_level :: "number option"
  connection_status :: string

text \<open>
  The three bodies the hook passes to \<^verbatim>\<open>sosApi.updateAlert\<close>:
  \<^verbatim>\<open>{status}\<close>, \<^verbatim>\<open>{status, resolved_by, notes}\<close> and \<^verbatim>\<open>{location}\<close>.
\<close>

datatype update_body =
    StatusBody string
  | ResolveBody string string string
  | LocationBody location_data

datatype api_call =
    GetActiveAlert
  | GetAlerts nat string
  | CreateAlert alertData
  | UpdateAlert nat update_body
  | ClearHistory

datatype effect =
    Request api_call
  | ReverseGeocode rat rat
  | ToastSuccess string
  | ToastError string
  | ConsoleError string
  | ConsoleWarn string

record hook =
  activeAlert :: "alert option"
  alertHistory :: "alert list"
  isLoading :: bool
  isTestMode :: bool
  pollIntervalRef :: "nat option"
  timers :: "(nat \<times> nat) list"
  trace :: "effect list"

definition emit :: "effect \<Rightarrow> hook \<Rightarrow> hook" where
  "emit e h = h\<lparr>trace := trace h @ [e]\<rparr>"

text \<open>The state of \<^verbatim>\<open>useState\<close> and \<^verbatim>\<open>useRef\<close> at the first render.\<close>

definition initial :: hook where
  "initial = \<lparr>activeAlert = None, alertHistory = [], isLoading = True, isTestMode = False,
     pollIntervalRef = None, timers = [], trace = []\<rparr>"

subsection \<open>Truthiness\<close>

text \<open>\<^verbatim>\<open>b || false\<close> on a boolean that may be missing.\<close>

fun or_false :: "bool option \<Rightarrow> bool" where
  "or_false None = False"
| "or_false (Some b) = b"

text \<open>\<^verbatim>\<open>n || null\<close> on a number that may be missing: 0 and NaN are falsy.\<close>

fun number_or_null :: "number option \<Rightarrow> number option" where
  "number_or_null None = None"
| "number_or_null (Some NaN) = None"
| "number_or_null (Some (Num r)) = (if r = 0 then None else Some (Num r))"

text \<open>\<^verbatim>\<open>s || d\<close> on a string that may be missing: the empty string is falsy.\<close>

fun string_or :: "string option \<Rightarrow> string \<Rightarrow> string" where
  "string_or None d = d"
| "string_or (Some s) d = (if s = [] then d else s)"

text \<open>\<^verbatim>\<open>!s\<close> on a string that may be missing.\<close>

fun falsy_string :: "string option \<Rightarrow> bool" where
  "falsy_string None = True"
| "falsy_string (Some s) = (s = [])"

subsection \<open>\<^verbatim>\<open>fetchActiveAlert\<close> and \<^verbatim>\<open>fetchAlertHistory\<close>\<close>

definition fetchActiveAlert_request :: "hook \<Rightarrow> hook" where
  "fetchActiveAlert_request h = emit (Request GetActiveAlert) h"

definition fetchActiveAlert_settled :: "alert option outcome \<Rightarrow> hook \<Rightarrow> hook" where
  "fetchActiveAlert_settled r h =
     (case r of
        Inr None \<Rightarrow> h\<lparr>activeAlert := None, isTestMode := False\<rparr>
      | Inr (Some a) \<Rightarrow> h\<lparr>activeAlert := Some a, isTestMode := or_false (alert_is_test a)\<rparr>
      | Inl e \<Rightarrow> emit (ConsoleError ''Failed to fetch active alert:'') h)"

definition fetchActiveAlert :: "alert option outcome \<Rightarrow> hook \<Rightarrow> hook" where
  "fetchActiveAlert r h = fetchActiveAlert_settled r (fetchActiveAlert_request h)"

definition fetchAlertHistory_request :: "hook \<Rightarrow> hook" where
  "fetchAlertHistory_request h = emit (Request (GetAlerts 50 ''resolved'')) h"

text \<open>\<^verbatim>\<open>response.data || []\<close>: a missing body counts as the empty history.\<close>

definition fetchAlertHistory_settled :: "alert list option outcome \<Rightarrow> hook \<Rightarrow> hook" where
  "fetchAlertHistory_settled r h =
     (case r of
        Inr None \<Rightarrow> h\<lparr>alertHistory := []\<rparr>
      | Inr (Some as) \<Rightarrow> h\<lparr>alertHistory := as\<rparr>
      | Inl e \<Rightarrow> emit (ConsoleError ''Failed to fetch alert history:'') h)"

definition fetchAlertHistory :: "alert list option outcome \<Rightarrow> hook \<Rightarrow> hook" where
  "fetchAlertHistory r h = fetchAlertHistory_settled r (fetchAlertHistory_request h)"

subsection \<open>\<^verbatim>\<open>triggerAlert\<close>\<close>

text \<open>The object literal that opens \<^verbatim>\<open>triggerAlert\<close>.\<close>

definition build_alertData :: "options \<Rightarrow> alertData" where
  "build_alertData opts =
     \<lparr>is_test = or_false (isTest opts),
      location = options.location opts,
      battery_level = number_or_null (batteryLevel opts),
      connection_status = string_or (connectionStatus opts) ''online''\<rparr>"

text \<open>
  The geocoding step. \<^verbatim>\<open>reverseGeocode\<close> is not part of the hook: what it settles to
  is the argument \<open>geo\<close>, read only when the call is made. A rejection is caught and
  logged by the inner \<^verbatim>\<open>try\<close>, and the payload is left as it was. The step returns
  the payload and the effects it issued, in order. (The assignment of the address also
  changes the location object of the caller, which the payload shares; the model
  returns the payload only.)
\<close>

definition geocode_step :: "string option outcome \<Rightarrow> alertData \<Rightarrow> alertData \<times> effect list" where
  "geocode_step geo d =
     (case alertData.location d of
        None \<Rightarrow> (d, [])
      | Some loc \<Rightarrow>
          if falsy_string (address loc) then
            (case geo of
               Inr a \<Rightarrow> (d\<lparr>location := Some (loc\<lparr>address := a\<rparr>)\<rparr>, [ReverseGeocode (lat loc) (lng loc)])
             | Inl e \<Rightarrow> (d, [ReverseGeocode (lat loc) (lng loc), ConsoleWarn ''Geocoding failed:'']))
          else (d, []))"

definition createAlert_settled :: "alert outcome \<Rightarrow> hook \<Rightarrow> alert outcome \<times> hook" where
  "createAlert_settled r h =
     (case r of
        Inr a \<Rightarrow>
          (Inr a,
           emit (ToastSuccess (if or_false (alert_is_test a) then ''Test SOS alert created''
                               else ''SOS alert triggered!''))
             (h\<lparr>activeAlert := Some a, isTestMode := or_false (alert_is_test a)\<rparr>))
      | Inl e \<Rightarrow>
          (Inl e,
           emit (ToastError ''Failed to trigger SOS alert'')
             (emit (ConsoleError ''Failed to trigger alert:'') h)))"

definition triggerAlert ::
  "options \<Rightarrow> string option outcome \<Rightarrow> alert outcome \<Rightarrow> hook \<Rightarrow> alert outcome \<times> hook" where
  "triggerAlert opts geo created h =
     (let (d, es) = geocode_step geo (build_alertData opts)
      in createAlert_settled created (h\<lparr>trace := trace h @ es @ [Request (CreateAlert d)]\<rparr>))"

subsection \<open>\<^verbatim>\<open>acknowledgeAlert\<close>\<close>

definition acknowledgeAlert_settled :: "alert outcome \<Rightarrow> hook \<Rightarrow> unit outcome \<times> hook" where
  "acknowledgeAlert_settled r h =
     (case r of
        Inr a \<Rightarrow> (Inr (), emit (ToastSuccess ''Alert acknowledged'') (h\<lparr>activeAlert := Some a\<rparr>))
      | Inl e \<Rightarrow>
          (Inr (),
           emit (ToastError ''Failed to acknowledge alert'')
             (emit (ConsoleError ''Failed to acknowledge alert:'') h)))"

definition acknowledgeAlert :: "nat \<Rightarrow> alert outcome \<Rightarrow> hook \<Rightarrow> unit outcome \<times> hook" where
  "acknowledgeAlert alertId r h =
     acknowledgeAlert_settled r
       (emit (Request (UpdateAlert alertId (StatusBody ''acknowledged''))) h)"

subsection \<open>\<^verbatim>\<open>resolveAlert\<close> and \<^verbatim>\<open>cancelAlert\<close>\<close>

text \<open>A default parameter replaces a missing (undefined) argument only.\<close>

fun default_arg :: "string option \<Rightarrow> string \<Rightarrow> string" where
  "default_arg None d = d"
| "default_arg (Some s) d = s"

text \<open>
  What runs when the update request of \<^verbatim>\<open>resolveAlert\<close> settles: the response body is
  not read; the slot is cleared and the history request is issued, or the failure is
  logged and shown.
\<close>

definition resolveAlert_updated :: "alert outcome \<Rightarrow> hook \<Rightarrow> hook" where
  "resolveAlert_updated r h =
     (case r of
        Inr a \<Rightarrow> fetchAlertHistory_request (h\<lparr>activeAlert := None, isTestMode := False\<rparr>)
      | Inl e \<Rightarrow>
          emit (ToastError ''Failed to resolve alert'')
            (emit (ConsoleError ''Failed to resolve alert:'') h))"

definition resolveAlert_history :: "alert list option outcome \<Rightarrow> hook \<Rightarrow> hook" where
  "resolveAlert_history hist h =
     emit (ToastSuccess ''Alert resolved successfully'') (fetchAlertHistory_settled hist h)"

definition resolveAlert ::
  "nat \<Rightarrow> string option \<Rightarrow> string option \<Rightarrow> alert outcome \<Rightarrow> alert list option outcome \<Rightarrow>
   hook \<Rightarrow> unit outcome \<times> hook" where
  "resolveAlert alertId resolvedBy notes r hist h =
     (let body = ResolveBody ''resolved'' (default_arg resolvedBy ''Caregiver'') (default_arg notes []);
          h1 = resolveAlert_updated r (emit (Request (UpdateAlert alertId body)) h)
      in case r of
           Inr a \<Rightarrow> (Inr (), resolveAlert_history hist h1)
         | Inl e \<Rightarrow> (Inr (), h1))"

definition cancelAlert_updated :: "alert outcome \<Rightarrow> hook \<Rightarrow> hook" where
  "cancelAlert_updated r h =
     (case r of
        Inr a \<Rightarrow> fetchAlertHistory_request (h\<lparr>activeAlert := None, isTestMode := False\<rparr>)
      | Inl e \<Rightarrow> emit (ConsoleError ''Failed to cancel alert:'') h)"

text \<open>\<^verbatim>\<open>cancelAlert\<close> reads the active alert of the render it was created in.\<close>

definition cancelAlert ::
  "alert outcome \<Rightarrow> alert list option outcome \<Rightarrow> hook \<Rightarrow> unit outcome \<times> hook" where
  "cancelAlert r hist h =
     (case activeAlert h of
        None \<Rightarrow> (Inr (), h)
      | Some cur \<Rightarrow>
          (let body = ResolveBody ''resolved'' ''System'' ''Cancelled'';
               h1 = cancelAlert_updated r (emit (Request (UpdateAlert (alert_id cur) body)) h)
           in case r of
                Inr a \<Rightarrow> (Inr (), fetchAlertHistory_settled hist h1)
              | Inl e \<Rightarrow> (Inr (), h1)))"

subsection \<open>\<^verbatim>\<open>clearHistory\<close> and \<^verbatim>\<open>updateAlertLocation\<close>\<close>

definition clearHistory_settled :: "unit outcome \<Rightarrow> hook \<Rightarrow> unit outcome \<times> hook" where
  "clearHistory_settled r h =
     (case r of
        Inr u \<Rightarrow> (Inr (), emit (ToastSuccess ''Alert history cleared'') (h\<lparr>alertHistory := []\<rparr>))
      | Inl e \<Rightarrow>
          (Inr (),
           emit (ToastError ''Failed to clear history'')
             (emit (ConsoleError ''Failed to clear history:'') h)))"

definition clearHistory :: "unit outcome \<Rightarrow> hook \<Rightarrow> unit outcome \<times> hook" where
  "clearHistory r h = clearHistory_settled r (emit (Request ClearHistory) h)"

definition updateAlertLocation_settled :: "alert outcome \<Rightarrow> hook \<Rightarrow> unit outcome \<times> hook" where
  "updateAlertLocation_settled r h =
     (case r of
        Inr a \<Rightarrow> (Inr (), h\<lparr>activeAlert := Some a\<rparr>)
      | Inl e \<Rightarrow> (Inr (), emit (ConsoleError ''Failed to update alert location:'') h))"

definition updateAlertLocation ::
  "location_data \<Rightarrow> alert outcome \<Rightarrow> hook \<Rightarrow> unit outcome \<times> hook" where
  "updateAlertLocation newLocation r h =
     (case activeAlert h of
        None \<Rightarrow> (Inr (), h)
      | Some cur \<Rightarrow>
          updateAlertLocation_settled r
            (emit (Request (UpdateAlert (alert_id cur) (LocationBody newLocation))) h))"

subsection \<open>The mount effect, the poll timer and the cleanup\<close>

text \<open>
  \<^verbatim>\<open>setInterval\<close> returns the handle \<open>tid\<close> and the browser keeps the timer, with
  its period of 3000 ms, in \<open>timers\<close> until \<^verbatim>\<open>clearInterval\<close> removes it. The
  effect body runs \<^verbatim>\<open>loadData\<close> up to its \<^verbatim>\<open>await\<close> (both requests are issued)
  and then starts the timer.
\<close>

definition effect_mount :: "nat \<Rightarrow> hook \<Rightarrow> hook" where
  "effect_mount tid h =
     (let h1 = fetchAlertHistory_request (fetchActiveAlert_request (h\<lparr>isLoading := True\<rparr>))
      in h1\<lparr>pollIntervalRef := Some tid, timers := (tid, 3000) # timers h1\<rparr>)"

text \<open>The end of \<^verbatim>\<open>loadData\<close>, after both fetches have settled.\<close>

definition loadData_settled :: "hook \<Rightarrow> hook" where
  "loadData_settled h = h\<lparr>isLoading := False\<rparr>"

text \<open>A tick of timer \<open>tid\<close>: the callback runs only while the browser holds the timer.\<close>

definition interval_tick :: "nat \<Rightarrow> hook \<Rightarrow> hook" where
  "interval_tick tid h =
     (if tid \<in> fst ` set (timers h) then fetchActiveAlert_request h else h)"

text \<open>The cleanup returned by the effect; a handle of 0 would be falsy.\<close>

definition effect_cleanup :: "hook \<Rightarrow> hook" where
  "effect_cleanup h =
     (case pollIntervalRef h of
        None \<Rightarrow> h
      | Some tid \<Rightarrow>
          if tid \<noteq> 0 then h\<lparr>timers := filter (\<lambda>t. fst t \<noteq> tid) (timers h)\<rparr> else h)"

subsection \<open>Settling requests in any order\<close>

text \<open>
  One value of \<open>completion\<close> per \<^verbatim>\<open>await\<close> of the hook that a server response ends.
  \<open>settle\<close> runs the code that follows that \<^verbatim>\<open>await\<close>, with the state setters
  taking effect as they do while the component is mounted; \<open>settle_all\<close> applies the
  completions in the order the responses arrive.
\<close>

datatype completion =
    ActiveAlertFetched "alert option outcome"
  | AlertCreated "alert outcome"
  | AlertAcknowledged "alert outcome"
  | ResolveUpdated "alert outcome"
  | CancelUpdated "alert outcome"
  | LocationUpdated "alert outcome"
  | HistoryFetched "alert list option outcome"
  | ResolveHistoryFetched "alert list option outcome"
  | HistoryCleared "unit outcome"

fun settle :: "completion \<Rightarrow> hook \<Rightarrow> hook" where
  "settle (ActiveAlertFetched r) h = fetchActiveAlert_settled r h"
| "settle (AlertCreated r) h = snd (createAlert_settled r h)"
| "settle (AlertAcknowledged r) h = snd (acknowledgeAlert_settled r h)"
| "settle (ResolveUpdated r) h = resolveAlert_updated r h"
| "settle (CancelUpdated r) h = cancelAlert_updated r h"
| "settle (LocationUpdated r) h = snd (updateAlertLocation_settled r h)"
| "settle (HistoryFetched r) h = fetchAlertHistory_settled r h"
| "settle (ResolveHistoryFetched r) h = resolveAlert_history r h"
| "settle (HistoryCleared r) h = snd (clearHistory_settled r h)"

fun settle_all :: "completion list \<Rightarrow> hook \<Rightarrow> hook" where
  "settle_all [] h = h"
| "settle_all (c # cs) h = settle_all cs (settle c h)"

text \<open>
  What a completion writes to the active-alert slot, read off the code after each
  \<^verbatim>\<open>await\<close>: \<open>Some v\<close> when \<^verbatim>\<open>setActiveAlert(v)\<close> is called, \<open>None\<close> when the slot is not
  written. \<open>last_write\<close> is the value of the slot after the last such call.
\<close>

fun slot_write :: "completion \<Rightarrow> alert option option" where
  "slot_write (ActiveAlertFetched (Inr d)) = Some d"
| "slot_write (AlertCreated (Inr a)) = Some (Some a)"
| "slot_write (AlertAcknowledged (Inr a)) = Some (Some a)"
| "slot_write (LocationUpdated (Inr a)) = Some (Some a)"
| "slot_write (ResolveUpdated (Inr a)) = Some None"
| "slot_write (CancelUpdated (Inr a)) = Some None"
| "slot_write c = None"

fun last_write :: "completion list \<Rightarrow> alert option \<Rightarrow> alert option" where
  "last_write [] v = v"
| "last_write (c # cs) v = last_write cs (case slot_write c of None \<Rightarrow> v | Some w \<Rightarrow> w)"

text \<open>
  The alert a server response carries, in the words of the specification: the body of
  a fulfilled request whose body is an alert object or \<^verbatim>\<open>null\<close>. A rejected request
  and the responses of the history endpoints carry none.
\<close>

fun response_alert :: "completion \<Rightarrow> alert option option" where
  "response_alert (ActiveAlertFetched (Inr d)) = Some d"
| "response_alert (AlertCreated (Inr a)) = Some (Some a)"
| "response_alert (AlertAcknowledged (Inr a)) = Some (Some a)"
| "response_alert (LocationUpdated (Inr a)) = Some (Some a)"
| "response_alert (ResolveUpdated (Inr a)) = Some (Some a)"
| "response_alert (CancelUpdated (Inr a)) = Some (Some a)"
| "response_alert c = None"

fun is_toast :: "effect \<Rightarrow> bool" where
  "is_toast (ToastSuccess m) = True"
| "is_toast (ToastError m) = True"
| "is_toast e = False"

subsection \<open>The component in React\<close>

text \<open>
  The four state cells belong to React. While the component is mounted, a call of a
  state setter replaces the cell. After the unmount React drops the call: the handler
  still runs, and what it does besides setting state (requests, toasts, console
  output) still happens, but the cells keep their values. \<open>run_handler\<close> runs a piece
  of the hook's code under this rule; the code writes state through the setters only
  and never reads it back, so dropping the calls is keeping the four cells.

  The unmount runs the cleanup of the effect. The events of a component are the
  settling of a request, the end of \<^verbatim>\<open>loadData\<close> and the tick of a timer.
\<close>

record component =
  mounted :: bool
  cells :: hook

definition keep_state :: "hook \<Rightarrow> hook \<Rightarrow> hook" where
  "keep_state old new =
     new\<lparr>activeAlert := activeAlert old, alertHistory := alertHistory old,
         isLoading := isLoading old, isTestMode := isTestMode old\<rparr>"

definition run_handler :: "(hook \<Rightarrow> hook) \<Rightarrow> component \<Rightarrow> component" where
  "run_handler f c =
     (if mounted c then c\<lparr>cells := f (cells c)\<rparr>
      else c\<lparr>cells := keep_state (cells c) (f (cells c))\<rparr>)"

definition mount :: "nat \<Rightarrow> component" where
  "mount tid = \<lparr>mounted = True, cells = effect_mount tid initial\<rparr>"

definition unmount :: "component \<Rightarrow> component" where
  "unmount c = \<lparr>mounted = False, cells = effect_cleanup (cells c)\<rparr>"

datatype hook_event = Settled completion | LoadDataSettled | Tick nat

fun react :: "hook_event \<Rightarrow> component \<Rightarrow> component" where
  "react (Settled x) c = run_handler (settle x) c"
| "react LoadDataSettled c = run_handler loadData_settled c"
| "react (Tick tid) c = run_handler (interval_tick tid) c"

fun react_all :: "hook_event list \<Rightarrow> component \<Rightarrow> component" where
  "react_all [] c = c"
| "react_all (e # es) c = react_all es (react e c)"

text \<open>The component state: the values of the four cells.\<close>

definition component_state :: "component \<Rightarrow> alert option \<times> alert list \<times> bool \<times> bool" where
  "component_state c =
     (activeAlert (cells c), alertHistory (cells c), isLoading (cells c), isTestMode (cells c))"

section \<open>The profile page: \<^verbatim>\<open>client/src/pages/ProfileSettings.jsx\<close>\<close>


























subsection \<open>A session of the page\<close>









section \<open>The password-reset form: \<^verbatim>\<open>ResetPassword.handleSubmit\<close>\<close>

text \<open>
  \<^verbatim>\<open>handleSubmit\<close> is modelled by the list of effects it has, in order. Strings are
  compared with \<^verbatim>\<open>!==\<close> and measured with \<^verbatim>\<open>.length\<close>; a \<open>char\<close> stands for one
  UTF-16 code unit. The answer of \<^verbatim>\<open>fetch\<close> followed by \<^verbatim>\<open>response.json()\<close> is the
  argument \<open>r\<close>: a rejection with its message, or the \<^verbatim>\<open>ok\<close> flag and the \<^verbatim>\<open>detail\<close>
  of the body.
\<close>

record reset_response =
  ok :: bool
  detail :: "string option"

datatype reset_effect =
    PreventDefault
  | SetIsLoading bool
  | PostResetPassword string string string
  | ResetToastError string
  | ResetToastSuccess string
  | ResetConsoleError string
  | NavigateAfter string nat

text \<open>\<^verbatim>\<open>VITE_API_URL || VITE_BASE_URL || 'http://localhost:8000'\<close>.\<close>

definition api_url :: "string option \<Rightarrow> string option \<Rightarrow> string" where
  "api_url vite_api_url vite_base_url =
     string_or vite_api_url (string_or vite_base_url ''http://localhost:8000'')"

definition handleSubmit ::
  "string option \<Rightarrow> string option \<Rightarrow> string \<Rightarrow> string \<Rightarrow> string \<Rightarrow> reset_response outcome \<Rightarrow>
   reset_effect list" where
  "handleSubmit vite_api_url vite_base_url token password confirmPassword r =
     PreventDefault #
     (if password \<noteq> confirmPassword then [ResetToastError ''Passwords do not match'']
      else if length password < 6 then [ResetToastError ''Password must be at least 6 characters'']
      else
        [SetIsLoading True,
         PostResetPassword (api_url vite_api_url vite_base_url @ ''/auth/reset-password'') token password]
        @ (case r of
             Inr resp \<Rightarrow>
               if \<not> ok resp then
                 [ResetConsoleError ''Reset password error:'',
                  ResetToastError
                    (string_or (Some (string_or (detail resp) ''Failed to reset password''))
                       ''Failed to reset password. Please try again.'')]
               else
                 [ResetToastSuccess ''Password reset successfully!'', NavigateAfter ''/login'' 2000]
           | Inl (Error m) \<Rightarrow>
               [ResetConsoleError ''Reset password error:'',
                ResetToastError (string_or (Some m) ''Failed to reset password. Please try again.'')])
        @ [SetIsLoading False])"

fun is_request :: "reset_effect \<Rightarrow> bool" where
  "is_request (PostResetPassword url token pw) = True"
| "is_request e = False"

section \<open>The recognition overlay of \<^verbatim>\<open>FaceRecognition\<close>\<close>

subsection \<open>JavaScript numbers\<close>

text \<open>
  A finite JavaScript number is an IEEE 754 double. It is modelled by its exact value, a
  rational; every arithmetic result is rounded to the nearest double, ties to even.
  \<open>to_double\<close> does the rounding over the normal and subnormal range (overflow to
  infinity is outside the model: the values here are at most 100).
\<close>

fun bit_length :: "nat \<Rightarrow> nat" where
  "bit_length n = (if n = 0 then 0 else Suc (bit_length (n div 2)))"

declare bit_length.simps [simp del]

definition pow2 :: "int \<Rightarrow> rat" where
  "pow2 e = (if 0 \<le> e then 2 ^ nat e else 1 / 2 ^ nat (- e))"

text \<open>For \<open>0 < x\<close>, the integer \<open>e\<close> with \<open>2 ^ e \<le> x < 2 ^ (e + 1)\<close>.\<close>

definition binary_exponent :: "rat \<Rightarrow> int" where
  "binary_exponent x =
     (if 1 \<le> x then int (bit_length (nat \<lfloor>x\<rfloor>)) - 1
      else - int (bit_length (nat (\<lceil>1 / x\<rceil> - 1))))"

definition round_half_even :: "rat \<Rightarrow> int" where
  "round_half_even x =
     (let f = \<lfloor>x\<rfloor>; d = x - of_int f
      in if d < 1 / 2 then f else if 1 / 2 < d then f + 1 else if even f then f else f + 1)"

definition to_double :: "rat \<Rightarrow> rat" where
  "to_double x =
     (if x = 0 then 0
      else (let ulp = pow2 (max (binary_exponent \<bar>x\<bar>) (- 1022) - 52)
            in of_int (round_half_even (x / ulp)) * ulp))"

text \<open>The product \<^verbatim>\<open>a * b\<close> of two doubles, and a decimal literal of the source.\<close>

definition js_times :: "rat \<Rightarrow> rat \<Rightarrow> rat" where
  "js_times a b = to_double (a * b)"

definition js_literal :: "rat \<Rightarrow> rat" where
  "js_literal q = to_double q"

subsection \<open>\<^verbatim>\<open>Number.prototype.toFixed(1)\<close>\<close>

fun digits :: "nat \<Rightarrow> string" where
  "digits n = (if n < 10 then [''0123456789'' ! n]
               else digits (n div 10) @ [''0123456789'' ! (n mod 10)])"

declare digits.simps [simp del]

text \<open>
  \<^verbatim>\<open>x.toFixed(1)\<close> as ECMA-262 defines it for a finite \<open>x\<close>: the sign first, then the
  integer \<open>n\<close> for which \<open>n / 10\<close> is nearest to the exact value of \<open>x\<close> (the larger
  one of two), written with one digit after the point. From \<open>10 ^ 21\<close> on the
  standard switches to the exponent form, which the model leaves out: \<open>None\<close>.
\<close>

definition toFixed1 :: "rat \<Rightarrow> string option" where
  "toFixed1 x =
     (let s = (if x < 0 then ''-'' else []);
          y = \<bar>x\<bar>
      in if 10 ^ 21 \<le> y then None
         else (let n = nat \<lfloor>y * 10 + 1 / 2\<rfloor>;
                   m = digits n;
                   m' = (if length m \<le> 1 then replicate (2 - length m) CHR ''0'' @ m else m)
               in Some (s @ butlast m' @ ''.'' @ [last m'])))"

subsection \<open>The confidence cell\<close>

record recognitionResult =
  name :: string
  relation :: string
  confidence :: rat

text \<open>The \<^verbatim>\<open>className\<close> of the confidence cell and its text.\<close>

definition confidence_className :: "recognitionResult \<Rightarrow> string" where
  "confidence_className res =
     ''text-lg font-mono '' @
       (if js_literal (6 / 10) < confidence res then ''text-green-400'' else ''text-yellow-400'')"

definition confidence_text :: "recognitionResult \<Rightarrow> string option" where
  "confidence_text res = map_option (\<lambda>t. t @ ''%'') (toFixed1 (js_times (confidence res) 100))"

section \<open>Values used in the examples\<close>

text \<open>Alert 7, in a given status and with a given test flag.\<close>

abbreviation alert7 :: "alert_status \<Rightarrow> bool option \<Rightarrow> alert" where
  "alert7 st t \<equiv> \<lparr>alert_id = 7, alert_status = st, alert_is_test = t, alert_location = None\<rparr>"

section \<open>Properties of the alert hook\<close>

subsection \<open>Helper facts about settling\<close>

lemma settle_slot:
  "activeAlert (settle c h) = (case slot_write c of None \<Rightarrow> activeAlert h | Some w \<Rightarrow> w)"
  by (cases c rule: slot_write.cases)
     (simp_all add: fetchActiveAlert_settled_def createAlert_settled_def acknowledgeAlert_settled_def
        resolveAlert_updated_def cancelAlert_updated_def updateAlertLocation_settled_def
        fetchAlertHistory_settled_def resolveAlert_history_def clearHistory_settled_def
        fetchAlertHistory_request_def emit_def split: sum.splits option.splits)

lemma settle_all_slot: "activeAlert (settle_all cs h) = last_write cs (activeAlert h)"
  by (induction cs arbitrary: h) (simp_all add: settle_slot)

lemma settle_all_append: "settle_all (xs @ ys) h = settle_all ys (settle_all xs h)"
  by (induction xs arbitrary: h) simp_all

lemma last_write_silent: "\<forall>c\<in>set cs. slot_write c = None \<Longrightarrow> last_write cs v = v"
  by (induction cs arbitrary: v) simp_all

subsection \<open>Last write wins\<close>

text \<open>
  C1, as the code has it. Completions may be applied in any order. The slot ends with
  the value written by the last completion that writes it, whatever the slot held
  before and whatever was applied earlier: the response's alert (or \<^verbatim>\<open>null\<close>) for a
  fulfilled poll, create, acknowledge or location update, and \<^verbatim>\<open>null\<close> for a fulfilled
  resolve or cancel update, whose response body is not read. Rejected requests and the
  history responses do not write the slot; if nothing writes it, it keeps its value.
\<close>

theorem last_write_wins:
  "(slot_write c = Some w \<and> (\<forall>c'\<in>set post. slot_write c' = None) \<longrightarrow>
      activeAlert (settle_all (pre @ c # post) h) = w)
   \<and> ((\<forall>c'\<in>set cs. slot_write c' = None) \<longrightarrow>
      activeAlert (settle_all cs h) = activeAlert h)
   \<and> activeAlert (settle (ActiveAlertFetched (Inr d)) h) = d
   \<and> activeAlert (settle (AlertCreated (Inr a)) h) = Some a
   \<and> activeAlert (settle (AlertAcknowledged (Inr a)) h) = Some a
   \<and> activeAlert (settle (LocationUpdated (Inr a)) h) = Some a
   \<and> activeAlert (settle (ResolveUpdated (Inr a)) h) = None
   \<and> activeAlert (settle (CancelUpdated (Inr a)) h) = None
   \<and> activeAlert (settle (ActiveAlertFetched (Inl e)) h) = activeAlert h"
proof -
  have ordered: "(slot_write c = Some w \<and> (\<forall>c'\<in>set post. slot_write c' = None) \<longrightarrow>
        activeAlert (settle_all (pre @ c # post) h) = w)
      \<and> ((\<forall>c'\<in>set cs. slot_write c' = None) \<longrightarrow>
        activeAlert (settle_all cs h) = activeAlert h)"
    by (simp add: settle_all_append settle_all_slot settle_slot last_write_silent)
  have each: "activeAlert (settle (ActiveAlertFetched (Inr d)) h) = d
      \<and> activeAlert (settle (AlertCreated (Inr a)) h) = Some a
      \<and> activeAlert (settle (AlertAcknowledged (Inr a)) h) = Some a
      \<and> activeAlert (settle (LocationUpdated (Inr a)) h) = Some a
      \<and> activeAlert (settle (ResolveUpdated (Inr a)) h) = None
      \<and> activeAlert (settle (CancelUpdated (Inr a)) h) = None
      \<and> activeAlert (settle (ActiveAlertFetched (Inl e)) h) = activeAlert h"
    by (simp only: settle_slot slot_write.simps option.case simp_thms)
  from ordered each show ?thesis
    by blast
qed

text \<open>
  C1 at a concrete run: a poll adopts alert 7, the acknowledgement replaces it, and a
  failed poll and a history response that arrive later leave the acknowledged alert in
  the slot.
\<close>

theorem last_write_wins_witness:
  "slot_write (AlertAcknowledged (Inr (alert7 Acknowledged None)))
     = Some (Some (alert7 Acknowledged None))
   \<and> slot_write (ActiveAlertFetched (Inl (Error ''timeout''))) = None
   \<and> slot_write (HistoryFetched (Inr None)) = None
   \<and> activeAlert (settle_all
        ([ActiveAlertFetched (Inr (Some (alert7 Active None)))]
         @ AlertAcknowledged (Inr (alert7 Acknowledged None))
         # [ActiveAlertFetched (Inl (Error ''timeout'')), HistoryFetched (Inr None)]) initial)
     = Some (alert7 Acknowledged None)
   \<and> activeAlert (settle_all
        [ActiveAlertFetched (Inl (Error ''timeout'')), HistoryFetched (Inr None)] initial)
     = activeAlert initial"
  using last_write_wins
    [of "AlertAcknowledged (Inr (alert7 Acknowledged None))"
        "Some (alert7 Acknowledged None)"
        "[ActiveAlertFetched (Inl (Error ''timeout'')), HistoryFetched (Inr None)]"
        "[ActiveAlertFetched (Inr (Some (alert7 Active None)))]"
        initial
        "[ActiveAlertFetched (Inl (Error ''timeout'')), HistoryFetched (Inr None)]"]
  by simp

text \<open>
  C1 as stated fails when the last response applied answers a resolve: the server
  returns the updated (resolved) alert, and the slot is \<^verbatim>\<open>null\<close>, not that alert.
\<close>

theorem resolve_response_not_adopted:
  "response_alert (ResolveUpdated (Inr (alert7 Resolved None)))
     = Some (Some (alert7 Resolved None))
   \<and> activeAlert (settle_all
        [ActiveAlertFetched (Inr (Some (alert7 Active None))),
         ResolveUpdated (Inr (alert7 Resolved None))]
        initial)
     \<noteq> Some (alert7 Resolved None)"
  by (simp add: fetchActiveAlert_settled_def resolveAlert_updated_def fetchAlertHistory_request_def
        emit_def initial_def)

subsection \<open>Resolve and cancel\<close>

text \<open>
  C2. When the update request of \<^verbatim>\<open>resolveAlert\<close> is fulfilled, the slot is \<^verbatim>\<open>null\<close> and
  the history request follows the update request; when it is rejected the slot is
  unchanged. \<^verbatim>\<open>cancelAlert\<close> on a held alert sends a resolve update for that alert with
  \<^verbatim>\<open>resolved_by\<close> \<^verbatim>\<open>'System'\<close> and the note \<^verbatim>\<open>'Cancelled'\<close>; fulfilled, it clears the slot and
  refetches the history; rejected, it changes nothing but the console.
\<close>

theorem resolve_and_cancel:
  "snd (resolveAlert i rb n (Inr a) hist h) =
     resolveAlert_history hist
       (h\<lparr>activeAlert := None, isTestMode := False,
          trace := trace h @
            [Request (UpdateAlert i
               (ResolveBody ''resolved'' (default_arg rb ''Caregiver'') (default_arg n []))),
             Request (GetAlerts 50 ''resolved'')]\<rparr>)
   \<and> activeAlert (snd (resolveAlert i rb n (Inr a) hist h)) = None
   \<and> activeAlert (snd (resolveAlert i rb n (Inl e) hist h)) = activeAlert h
   \<and> (activeAlert h = Some cur \<longrightarrow>
        snd (cancelAlert (Inr a) hist h) =
          fetchAlertHistory_settled hist
            (h\<lparr>activeAlert := None, isTestMode := False,
               trace := trace h @
                 [Request (UpdateAlert (alert_id cur)
                    (ResolveBody ''resolved'' ''System'' ''Cancelled'')),
                  Request (GetAlerts 50 ''resolved'')]\<rparr>)
        \<and> activeAlert (snd (cancelAlert (Inr a) hist h)) = None
        \<and> snd (cancelAlert (Inl e) hist h) =
            h\<lparr>trace := trace h @
                 [Request (UpdateAlert (alert_id cur)
                    (ResolveBody ''resolved'' ''System'' ''Cancelled'')),
                  ConsoleError ''Failed to cancel alert:'']\<rparr>)"
  by (auto simp add: resolveAlert_def resolveAlert_updated_def resolveAlert_history_def
        cancelAlert_def cancelAlert_updated_def fetchAlertHistory_request_def
        fetchAlertHistory_settled_def emit_def Let_def
      split: sum.splits option.splits)

text \<open>C2 at a concrete state: alert 7 is held and is cancelled; the server answers both requests.\<close>

theorem resolve_and_cancel_witness:
  "activeAlert (initial\<lparr>activeAlert := Some (alert7 Active None)\<rparr>) = Some (alert7 Active None)
   \<and> activeAlert (snd (cancelAlert (Inr (alert7 Resolved None)) (Inr (Some [alert7 Resolved None]))
         (initial\<lparr>activeAlert := Some (alert7 Active None)\<rparr>))) = None
   \<and> alertHistory (snd (cancelAlert (Inr (alert7 Resolved None)) (Inr (Some [alert7 Resolved None]))
         (initial\<lparr>activeAlert := Some (alert7 Active None)\<rparr>))) = [alert7 Resolved None]
   \<and> trace (snd (cancelAlert (Inr (alert7 Resolved None)) (Inr (Some [alert7 Resolved None]))
         (initial\<lparr>activeAlert := Some (alert7 Active None)\<rparr>))) =
       [Request (UpdateAlert 7 (ResolveBody ''resolved'' ''System'' ''Cancelled'')),
        Request (GetAlerts 50 ''resolved'')]
   \<and> activeAlert (snd (cancelAlert (Inl (Error ''500'')) (Inr (Some [alert7 Resolved None]))
         (initial\<lparr>activeAlert := Some (alert7 Active None)\<rparr>))) = Some (alert7 Active None)"
proof -
  let ?h = "initial\<lparr>activeAlert := Some (alert7 Active None)\<rparr>"
  have held: "activeAlert ?h = Some (alert7 Active None)"
    by simp
  from resolve_and_cancel
    [of 7 None None "alert7 Resolved None" "Inr (Some [alert7 Resolved None])" ?h
        "Error ''500''" "alert7 Active None"] held
  have fulfilled: "snd (cancelAlert (Inr (alert7 Resolved None)) (Inr (Some [alert7 Resolved None])) ?h) =
      fetchAlertHistory_settled (Inr (Some [alert7 Resolved None]))
        (?h\<lparr>activeAlert := None, isTestMode := False,
            trace := trace ?h @
              [Request (UpdateAlert (alert_id (alert7 Active None))
                 (ResolveBody ''resolved'' ''System'' ''Cancelled'')),
               Request (GetAlerts 50 ''resolved'')]\<rparr>)"
    and rejected: "snd (cancelAlert (Inl (Error ''500'')) (Inr (Some [alert7 Resolved None])) ?h) =
      ?h\<lparr>trace := trace ?h @
          [Request (UpdateAlert (alert_id (alert7 Active None))
             (ResolveBody ''resolved'' ''System'' ''Cancelled'')),
           ConsoleError ''Failed to cancel alert:'']\<rparr>"
    by blast+
  show ?thesis
    unfolding fulfilled rejected
    by (simp add: fetchAlertHistory_settled_def initial_def)
qed

subsection \<open>Triggering an alert\<close>

text \<open>
  C3. When the location of the options has no address (or an empty one),
  \<^verbatim>\<open>triggerAlert\<close> calls \<^verbatim>\<open>reverseGeocode\<close> once, with the coordinates of the location,
  and then issues the create request. If geocoding is rejected the failure is logged,
  the create request is still issued and the payload's location is the one given,
  its address as absent as before; if geocoding is fulfilled the address it returned is
  set in the payload's location. What follows the request is the code that handles the
  create response.
\<close>

theorem triggerAlert_geocodes_once:
  assumes "options.location opts = Some loc" and "falsy_string (address loc)"
  shows "triggerAlert opts (Inl e) created h =
           createAlert_settled created
             (h\<lparr>trace := trace h @
                [ReverseGeocode (lat loc) (lng loc), ConsoleWarn ''Geocoding failed:'',
                 Request (CreateAlert ((build_alertData opts)\<lparr>location := Some loc\<rparr>))]\<rparr>)
         \<and> triggerAlert opts (Inr addr) created h =
           createAlert_settled created
             (h\<lparr>trace := trace h @
                [ReverseGeocode (lat loc) (lng loc),
                 Request (CreateAlert
                   ((build_alertData opts)\<lparr>location := Some (loc\<lparr>address := addr\<rparr>)\<rparr>))]\<rparr>)"
  using assms by (simp add: triggerAlert_def geocode_step_def build_alertData_def)

text \<open>
  C3 at a concrete call: a test alert at (1, 2) without address, geocoding offline, the
  server creates alert 7.
\<close>

theorem triggerAlert_geocodes_once_witness:
  "options.location \<lparr>isTest = Some True, location = Some \<lparr>lat = 1, lng = 2, address = None\<rparr>,
       batteryLevel = None, connectionStatus = None\<rparr> = Some \<lparr>lat = 1, lng = 2, address = None\<rparr>
   \<and> falsy_string (address \<lparr>lat = 1, lng = 2, address = None\<rparr>)
   \<and> trace (snd (triggerAlert
        \<lparr>isTest = Some True, location = Some \<lparr>lat = 1, lng = 2, address = None\<rparr>,
         batteryLevel = None, connectionStatus = None\<rparr>
        (Inl (Error ''offline'')) (Inr (alert7 Active (Some True))) initial)) =
      [ReverseGeocode 1 2, ConsoleWarn ''Geocoding failed:'',
       Request (CreateAlert \<lparr>is_test = True, location = Some \<lparr>lat = 1, lng = 2, address = None\<rparr>,
                             battery_level = None, connection_status = ''online''\<rparr>),
       ToastSuccess ''Test SOS alert created'']
   \<and> activeAlert (snd (triggerAlert
        \<lparr>isTest = Some True, location = Some \<lparr>lat = 1, lng = 2, address = None\<rparr>,
         batteryLevel = None, connectionStatus = None\<rparr>
        (Inl (Error ''offline'')) (Inr (alert7 Active (Some True))) initial)) = Some (alert7 Active (Some True))"
  using triggerAlert_geocodes_once
    [of "\<lparr>isTest = Some True, location = Some \<lparr>lat = 1, lng = 2, address = None\<rparr>,
         batteryLevel = None, connectionStatus = None\<rparr>"
        "\<lparr>lat = 1, lng = 2, address = None\<rparr>" "Error ''offline''" "Inr (alert7 Active (Some True))" initial]
  by (simp add: createAlert_settled_def emit_def initial_def build_alertData_def)

text \<open>
  C10. The payload of the create request, \<open>d\<close>, is the object literal of
  \<^verbatim>\<open>triggerAlert\<close> after the geocoding step. A battery level of 0, like a missing one,
  is sent as \<^verbatim>\<open>null\<close>; a missing location is sent as \<^verbatim>\<open>null\<close>; a missing \<^verbatim>\<open>isTest\<close> is sent
  as \<^verbatim>\<open>false\<close>; a missing \<^verbatim>\<open>connectionStatus\<close> is sent as \<^verbatim>\<open>'online'\<close>.
\<close>

theorem triggerAlert_payload:
  assumes "geocode_step geo (build_alertData opts) = (d, es)"
  shows "(\<exists>post. trace (snd (triggerAlert opts geo created h)) =
                    trace h @ es @ Request (CreateAlert d) # post)
     \<and> (batteryLevel opts = Some (Num 0) \<or> batteryLevel opts = None \<longrightarrow> battery_level d = None)
     \<and> (options.location opts = None \<longrightarrow> alertData.location d = None)
     \<and> (isTest opts = None \<longrightarrow> \<not> is_test d)
     \<and> (connectionStatus opts = None \<longrightarrow> connection_status d = ''online'')"
  using assms
  by (auto simp add: triggerAlert_def geocode_step_def build_alertData_def createAlert_settled_def
        emit_def split: option.splits if_splits sum.splits)

text \<open>C10 at a concrete call: battery level 0 and nothing else given.\<close>

theorem triggerAlert_payload_witness:
  "geocode_step (Inl (Error ''unused''))
      (build_alertData \<lparr>isTest = None, location = None, batteryLevel = Some (Num 0),
                        connectionStatus = None\<rparr>)
     = (\<lparr>is_test = False, location = None, battery_level = None, connection_status = ''online''\<rparr>, [])
   \<and> (\<exists>post. trace (snd (triggerAlert
          \<lparr>isTest = None, location = None, batteryLevel = Some (Num 0), connectionStatus = None\<rparr>
          (Inl (Error ''unused'')) (Inl (Error ''500'')) initial)) =
        Request (CreateAlert \<lparr>is_test = False, location = None, battery_level = None,
                               connection_status = ''online''\<rparr>) # post)"
proof -
  have g: "geocode_step (Inl (Error ''unused''))
      (build_alertData \<lparr>isTest = None, location = None, batteryLevel = Some (Num 0),
                        connectionStatus = None\<rparr>)
     = (\<lparr>is_test = False, location = None, battery_level = None, connection_status = ''online''\<rparr>, [])"
    by (simp add: geocode_step_def build_alertData_def)
  from triggerAlert_payload [OF g, of "Inl (Error ''500'')" initial] g
  show ?thesis by (simp add: initial_def)
qed

subsection \<open>Acknowledging an alert\<close>

text \<open>
  C4. \<^verbatim>\<open>acknowledgeAlert(id)\<close> sends the status update \<^verbatim>\<open>'acknowledged'\<close> for \<open>id\<close>.
  Fulfilled with alert \<open>a\<close>, the slot holds exactly \<open>a\<close> and nothing else of the state
  changes; rejected, the state is unchanged and the error toast
  \<^verbatim>\<open>'Failed to acknowledge alert'\<close> is shown.
\<close>

theorem acknowledgeAlert_outcome:
  "acknowledgeAlert i (Inr a) h =
     (Inr (), h\<lparr>activeAlert := Some a,
                trace := trace h @ [Request (UpdateAlert i (StatusBody ''acknowledged'')),
                                    ToastSuccess ''Alert acknowledged'']\<rparr>)
   \<and> acknowledgeAlert i (Inl e) h =
     (Inr (), h\<lparr>trace := trace h @ [Request (UpdateAlert i (StatusBody ''acknowledged'')),
                                    ConsoleError ''Failed to acknowledge alert:'',
                                    ToastError ''Failed to acknowledge alert'']\<rparr>)"
  by (simp add: acknowledgeAlert_def acknowledgeAlert_settled_def emit_def)

subsection \<open>Reporting failures\<close>

text \<open>
  C6, as the code has it. A rejected request is always logged to the console.
  \<^verbatim>\<open>triggerAlert\<close>, \<^verbatim>\<open>acknowledgeAlert\<close>, \<^verbatim>\<open>resolveAlert\<close> and \<^verbatim>\<open>clearHistory\<close> also show an
  error toast; \<^verbatim>\<open>cancelAlert\<close> and \<^verbatim>\<open>updateAlertLocation\<close> show none. Only \<^verbatim>\<open>triggerAlert\<close>
  rejects its own promise, with the error it caught; the other five are fulfilled.
\<close>

theorem failure_reporting:
  "fst (triggerAlert opts geo (Inl e) h) = Inl e
   \<and> (\<exists>pre. trace (snd (triggerAlert opts geo (Inl e) h)) =
         pre @ [ConsoleError ''Failed to trigger alert:'', ToastError ''Failed to trigger SOS alert''])
   \<and> acknowledgeAlert i (Inl e) h =
       (Inr (), h\<lparr>trace := trace h @ [Request (UpdateAlert i (StatusBody ''acknowledged'')),
               ConsoleError ''Failed to acknowledge alert:'', ToastError ''Failed to acknowledge alert'']\<rparr>)
   \<and> resolveAlert i rb n (Inl e) hist h =
       (Inr (), h\<lparr>trace := trace h @
              [Request (UpdateAlert i
                 (ResolveBody ''resolved'' (default_arg rb ''Caregiver'') (default_arg n []))),
               ConsoleError ''Failed to resolve alert:'', ToastError ''Failed to resolve alert'']\<rparr>)
   \<and> clearHistory (Inl e) h =
       (Inr (), h\<lparr>trace := trace h @ [Request ClearHistory,
               ConsoleError ''Failed to clear history:'', ToastError ''Failed to clear history'']\<rparr>)
   \<and> (activeAlert h = Some cur \<longrightarrow>
        cancelAlert (Inl e) hist h =
          (Inr (), h\<lparr>trace := trace h @
              [Request (UpdateAlert (alert_id cur) (ResolveBody ''resolved'' ''System'' ''Cancelled'')),
               ConsoleError ''Failed to cancel alert:'']\<rparr>)
        \<and> updateAlertLocation newLocation (Inl e) h =
          (Inr (), h\<lparr>trace := trace h @
              [Request (UpdateAlert (alert_id cur) (LocationBody newLocation)),
               ConsoleError ''Failed to update alert location:'']\<rparr>))"
  by (auto simp add: triggerAlert_def createAlert_settled_def acknowledgeAlert_def
        acknowledgeAlert_settled_def resolveAlert_def resolveAlert_updated_def clearHistory_def
        clearHistory_settled_def cancelAlert_def cancelAlert_updated_def updateAlertLocation_def
        updateAlertLocation_settled_def emit_def Let_def split: prod.splits)

text \<open>C6 at a concrete state: alert 7 is held and the location update is rejected.\<close>

theorem failure_reporting_witness:
  "activeAlert (initial\<lparr>activeAlert := Some (alert7 Active None)\<rparr>) = Some (alert7 Active None)
   \<and> updateAlertLocation \<lparr>lat = 1, lng = 2, address = None\<rparr> (Inl (Error ''500''))
        (initial\<lparr>activeAlert := Some (alert7 Active None)\<rparr>) =
       (Inr (), initial\<lparr>activeAlert := Some (alert7 Active None),
          trace := [Request (UpdateAlert 7 (LocationBody \<lparr>lat = 1, lng = 2, address = None\<rparr>)),
                    ConsoleError ''Failed to update alert location:'']\<rparr>)"
proof -
  let ?h = "initial\<lparr>activeAlert := Some (alert7 Active None)\<rparr>"
  have held: "activeAlert ?h = Some (alert7 Active None)"
    by simp
  from failure_reporting
    [of "\<lparr>isTest = None, location = None, batteryLevel = None, connectionStatus = None\<rparr>"
        "Inl (Error ''unused'')" "Error ''500''" ?h
        7 None None "Inr None" "alert7 Active None" "\<lparr>lat = 1, lng = 2, address = None\<rparr>"] held
  have "updateAlertLocation \<lparr>lat = 1, lng = 2, address = None\<rparr> (Inl (Error ''500'')) ?h =
      (Inr (), ?h\<lparr>trace := trace ?h @
          [Request (UpdateAlert (alert_id (alert7 Active None))
             (LocationBody \<lparr>lat = 1, lng = 2, address = None\<rparr>)),
           ConsoleError ''Failed to update alert location:'']\<rparr>)"
    by blast
  then show ?thesis
    by (simp add: initial_def)
qed

text \<open>
  C6 as stated fails for \<^verbatim>\<open>cancelAlert\<close>: when its update request is rejected no toast is
  shown, and the promise is fulfilled, so the caller gets no rejection either.
\<close>

theorem cancel_failure_is_silent:
  "filter is_toast (trace (snd (cancelAlert (Inl (Error ''500'')) (Inr None)
      (initial\<lparr>activeAlert := Some (alert7 Active None)\<rparr>)))) = []
   \<and> fst (cancelAlert (Inl (Error ''500'')) (Inr None) (initial\<lparr>activeAlert := Some (alert7 Active None)\<rparr>)) = Inr ()"
  by (simp add: cancelAlert_def cancelAlert_updated_def emit_def initial_def)

subsection \<open>Unmounting\<close>

lemma settle_timers: "timers (settle x h) = timers h"
  by (cases x)
     (auto simp add: fetchActiveAlert_settled_def createAlert_settled_def
        acknowledgeAlert_settled_def resolveAlert_updated_def cancelAlert_updated_def
        updateAlertLocation_settled_def fetchAlertHistory_settled_def resolveAlert_history_def
        clearHistory_settled_def fetchAlertHistory_request_def emit_def
      split: sum.splits option.splits)

lemma handler_timers:
  "timers (interval_tick tid h) = timers h" "timers (loadData_settled h) = timers h"
  by (simp_all add: interval_tick_def loadData_settled_def fetchActiveAlert_request_def emit_def)

lemma run_handler_after_unmount:
  "mounted (run_handler f c) = mounted c"
  "timers (cells (run_handler f c)) = timers (f (cells c))"
  "\<not> mounted c \<Longrightarrow> component_state (run_handler f c) = component_state c"
  by (simp_all add: run_handler_def keep_state_def component_state_def)

lemma react_after_unmount:
  "mounted (react e c) = mounted c"
  "timers (cells (react e c)) = timers (cells c)"
  "\<not> mounted c \<Longrightarrow> component_state (react e c) = component_state c"
  by (cases e; simp add: run_handler_after_unmount settle_timers handler_timers)+

lemma react_all_after_unmount:
  "mounted (react_all es c) = mounted c"
  "timers (cells (react_all es c)) = timers (cells c)"
  "\<not> mounted c \<Longrightarrow> component_state (react_all es c) = component_state c"
  by (induction es arbitrary: c) (simp_all add: react_after_unmount)

lemma stopped_tick:
  "tid \<notin> fst ` set (timers (cells c)) \<Longrightarrow> react (Tick tid) c = c"
  by (simp add: run_handler_def interval_tick_def keep_state_def)

lemma unmount_clears:
  "pollIntervalRef (cells c) = Some tid \<Longrightarrow> tid \<noteq> 0 \<Longrightarrow>
   tid \<notin> fst ` set (timers (cells (unmount c)))"
  by (auto simp add: unmount_def effect_cleanup_def)

lemma unmount_state:
  "\<not> mounted (unmount c)" "component_state (unmount c) = component_state c"
  by (simp_all add: unmount_def component_state_def effect_cleanup_def split: option.splits)

text \<open>
  C7. When the component unmounts, the cleanup clears the interval whose handle
  \<open>pollIntervalRef\<close> holds: whatever happens afterwards the timer is gone, and a tick
  of it issues no poll. The requests in flight are not cancelled and the hook has no
  guard of its own; when they settle their handlers run and call the state setters,
  and React drops the calls. So after any sequence of events that follows the unmount
  the four state cells hold what they held when the component unmounted.
\<close>

theorem unmount_is_final:
  "(pollIntervalRef (cells c) = Some tid \<and> tid \<noteq> 0 \<longrightarrow>
      tid \<notin> fst ` set (timers (cells (react_all es (unmount c))))
      \<and> react (Tick tid) (react_all es (unmount c)) = react_all es (unmount c))
   \<and> component_state (react_all es (unmount c)) = component_state c
   \<and> \<not> mounted (react_all es (unmount c))"
proof -
  have stopped: "pollIntervalRef (cells c) = Some tid \<and> tid \<noteq> 0 \<longrightarrow>
      tid \<notin> fst ` set (timers (cells (react_all es (unmount c))))"
    by (simp add: react_all_after_unmount unmount_clears)
  then have silent: "pollIntervalRef (cells c) = Some tid \<and> tid \<noteq> 0 \<longrightarrow>
      react (Tick tid) (react_all es (unmount c)) = react_all es (unmount c)"
    using stopped_tick by blast
  have kept: "component_state (react_all es (unmount c)) = component_state c"
    by (simp add: react_all_after_unmount unmount_state)
  have gone: "\<not> mounted (react_all es (unmount c))"
    by (simp add: react_all_after_unmount unmount_state)
  from stopped silent kept gone show ?thesis
    by blast
qed

text \<open>
  C7 at a concrete run: the hook mounts with timer 1, which polls on a tick. After the
  unmount the timer is gone, a tick does nothing, and the poll issued at mount, answered
  with test alert 7, leaves the state as it was; answered while mounted it sets the
  slot and the test-mode flag.
\<close>

theorem unmount_is_final_witness:
  "pollIntervalRef (cells (mount 1)) = Some 1 \<and> (1::nat) \<noteq> 0
   \<and> timers (cells (mount 1)) = [(1, 3000)]
   \<and> timers (cells (react_all [Settled (ActiveAlertFetched (Inr (Some (alert7 Active (Some True)))))]
        (unmount (mount 1)))) = []
   \<and> react (Tick 1) (react_all [Settled (ActiveAlertFetched (Inr (Some (alert7 Active (Some True)))))]
        (unmount (mount 1)))
     = react_all [Settled (ActiveAlertFetched (Inr (Some (alert7 Active (Some True)))))]
        (unmount (mount 1))
   \<and> component_state (react_all [Settled (ActiveAlertFetched (Inr (Some (alert7 Active (Some True)))))]
        (unmount (mount 1))) = (None, [], True, False)
   \<and> component_state (react_all [Settled (ActiveAlertFetched (Inr (Some (alert7 Active (Some True)))))]
        (mount 1)) = (Some (alert7 Active (Some True)), [], True, True)
   \<and> trace (cells (react (Tick 1) (mount 1))) =
       [Request GetActiveAlert, Request (GetAlerts 50 ''resolved''), Request GetActiveAlert]"
proof -
  let ?es = "[Settled (ActiveAlertFetched (Inr (Some (alert7 Active (Some True)))))]"
  have held: "pollIntervalRef (cells (mount 1)) = Some 1 \<and> (1::nat) \<noteq> 0"
    by (simp add: mount_def effect_mount_def Let_def)
  from unmount_is_final [of "mount 1" 1 ?es] held
  have silent: "react (Tick 1) (react_all ?es (unmount (mount 1))) = react_all ?es (unmount (mount 1))"
    and kept: "component_state (react_all ?es (unmount (mount 1))) = component_state (mount 1)"
    by blast+
  have before: "component_state (mount 1) = (None, [], True, False)"
    by (simp add: component_state_def mount_def effect_mount_def initial_def
          fetchActiveAlert_request_def fetchAlertHistory_request_def emit_def Let_def)
  have run: "timers (cells (mount 1)) = [(1, 3000)]
      \<and> timers (cells (react_all ?es (unmount (mount 1)))) = []
      \<and> component_state (react_all ?es (mount 1)) = (Some (alert7 Active (Some True)), [], True, True)
      \<and> trace (cells (react (Tick 1) (mount 1))) =
          [Request GetActiveAlert, Request (GetAlerts 50 ''resolved''), Request GetActiveAlert]"
    by (simp add: component_state_def mount_def unmount_def effect_mount_def effect_cleanup_def
          initial_def fetchActiveAlert_request_def fetchAlertHistory_request_def emit_def Let_def
          run_handler_def keep_state_def fetchActiveAlert_settled_def interval_tick_def)
  from held silent kept before run show ?thesis
    by simp
qed

section \<open>Properties of the profile page\<close>

subsection \<open>The invariant of a session\<close>



















subsection \<open>The dirty flag\<close>



section \<open>Properties of the password-reset form\<close>

text \<open>
  C8. A submission whose password and confirmation differ does nothing but show the
  error toast \<^verbatim>\<open>'Passwords do not match'\<close>; one whose matching password is shorter
  than 6 does nothing but show \<^verbatim>\<open>'Password must be at least 6 characters'\<close>. Neither
  issues a request.
\<close>

theorem reset_validation:
  "(password \<noteq> confirmPassword \<longrightarrow>
      handleSubmit u1 u2 token password confirmPassword r =
        [PreventDefault, ResetToastError ''Passwords do not match''])
   \<and> (password = confirmPassword \<and> length password < 6 \<longrightarrow>
      handleSubmit u1 u2 token password confirmPassword r =
        [PreventDefault, ResetToastError ''Password must be at least 6 characters''])
   \<and> (password \<noteq> confirmPassword \<or> length password < 6 \<longrightarrow>
      filter is_request (handleSubmit u1 u2 token password confirmPassword r) = [])"
  by (auto simp add: handleSubmit_def)

text \<open>C8 at the two submissions of the specification.\<close>

theorem reset_validation_witness:
  "''abcdef'' \<noteq> ''abcdeg'' \<and> length ''abcde'' < 6
   \<and> handleSubmit None None ''tok'' ''abcdef'' ''abcdeg'' (Inr \<lparr>ok = True, detail = None\<rparr>) =
        [PreventDefault, ResetToastError ''Passwords do not match'']
   \<and> handleSubmit None None ''tok'' ''abcde'' ''abcde'' (Inr \<lparr>ok = True, detail = None\<rparr>) =
        [PreventDefault, ResetToastError ''Password must be at least 6 characters'']
   \<and> filter is_request
        (handleSubmit None None ''tok'' ''abcdef'' ''abcdeg'' (Inr \<lparr>ok = True, detail = None\<rparr>)) = []
   \<and> filter is_request
        (handleSubmit None None ''tok'' ''abcde'' ''abcde'' (Inr \<lparr>ok = True, detail = None\<rparr>)) = []"
  using reset_validation [of "''abcdef''" "''abcdeg''" None None "''tok''"
          "Inr \<lparr>ok = True, detail = None\<rparr>"]
        reset_validation [of "''abcde''" "''abcde''" None None "''tok''"
          "Inr \<lparr>ok = True, detail = None\<rparr>"]
  by simp

section \<open>Properties of the recognition overlay\<close>

subsection \<open>The number 0.6\<close>

text \<open>
  The literal \<^verbatim>\<open>0.6\<close> of the source is the double just below \<open>6 / 10\<close>. No double
  lies between the two, so a double is above the one exactly when it is above the
  other.
\<close>

lemma threshold_value: "js_literal (6 / 10) = 5404319552844595 / 9007199254740992"
  by code_simp

lemma bit_length_1: "bit_length (Suc 0) = Suc 0"
  by (simp add: bit_length.simps)

lemma exponent_half_to_one:
  assumes "1 / 2 < c" and "c < 1"
  shows "binary_exponent \<bar>c\<bar> = - 1"
proof -
  from assms have pos: "0 < c" by simp
  from assms pos have "1 < 1 / c" by (simp add: field_simps)
  moreover from assms pos have "1 / c < 2" by (simp add: field_simps)
  ultimately have "\<lceil>1 / c\<rceil> = 2"
    by (intro ceiling_unique) simp_all
  with assms pos show ?thesis
    by (simp add: binary_exponent_def bit_length_1)
qed

lemma double_half_to_one:
  assumes d: "to_double c = c" and lo: "1 / 2 < c" and hi: "c < 1"
  shows "\<exists>k::int. c = of_int k / 9007199254740992"
proof -
  from lo have nz: "c \<noteq> 0" by auto
  have e: "binary_exponent \<bar>c\<bar> = - 1"
    using lo hi by (rule exponent_half_to_one)
  have p: "pow2 (- 53) = 1 / 9007199254740992"
    by (simp add: pow2_def)
  have "to_double c = of_int (round_half_even (c / pow2 (- 53))) * pow2 (- 53)"
    using nz e by (simp add: to_double_def Let_def)
  with d have "c = of_int (round_half_even (c / pow2 (- 53))) * pow2 (- 53)"
    by simp
  then have "c = of_int (round_half_even (c / pow2 (- 53))) / 9007199254740992"
    unfolding p by simp
  then show ?thesis ..
qed

lemma above_threshold:
  assumes d: "to_double c = c"
  shows "js_literal (6 / 10) < c \<longleftrightarrow> 6 / 10 < c"
  unfolding threshold_value
proof
  assume "6 / 10 < c"
  then show "5404319552844595 / 9007199254740992 < c"
    by simp
next
  assume lo: "5404319552844595 / 9007199254740992 < c"
  show "6 / 10 < c"
  proof (rule ccontr)
    assume "\<not> 6 / 10 < c"
    then have le: "c \<le> 6 / 10" by simp
    from lo have "1 / 2 < c" by simp
    moreover from le have "c < 1" by simp
    ultimately obtain k :: int where k: "c = of_int k / 9007199254740992"
      using double_half_to_one [OF d] by blast
    from lo k have "(5404319552844595::rat) < of_int k"
      by (simp add: field_simps)
    then have "5404319552844595 < k"
      by linarith
    moreover from le k have "(of_int k :: rat) * 10 \<le> 54043195528445952"
      by (simp add: field_simps)
    then have "(of_int (k * 10) :: rat) \<le> of_int 54043195528445952"
      by simp
    then have "k * 10 \<le> 54043195528445952"
      by (simp only: of_int_le_iff)
    ultimately show False by simp
  qed
qed

subsection \<open>The scenario\<close>

lemma jane_text:
  "confidence_text \<lparr>name = ''Jane'', relation = ''Self'', confidence = js_literal (42 / 100)\<rparr>
     = Some ''42.0%''"
  by code_simp

lemma jane_className:
  "confidence_className \<lparr>name = ''Jane'', relation = ''Self'', confidence = js_literal (42 / 100)\<rparr>
     = ''text-lg font-mono text-yellow-400''"
  by code_simp

lemma jane_below:
  "confidence \<lparr>name = ''Jane'', relation = ''Self'', confidence = js_literal (42 / 100)\<rparr>
     \<le> js_literal (6 / 10)"
  by code_simp

lemma high_confidence:
  "to_double (confidence \<lparr>name = ''Jane'', relation = ''Self'', confidence = js_literal (87 / 100)\<rparr>)
     = confidence \<lparr>name = ''Jane'', relation = ''Self'', confidence = js_literal (87 / 100)\<rparr>
   \<and> 6 / 10 < confidence \<lparr>name = ''Jane'', relation = ''Self'', confidence = js_literal (87 / 100)\<rparr>
   \<and> confidence_text \<lparr>name = ''Jane'', relation = ''Self'', confidence = js_literal (87 / 100)\<rparr>
     = Some ''87.0%''"
  by code_simp

text \<open>
  C9. The response \<^verbatim>\<open>{name: "Jane", relation: "Self", confidence: 0.42}\<close>, whose
  confidence is the double nearest to 0.42, is shown as \<^verbatim>\<open>42.0%\<close> in the yellow class.
  In general the text is the confidence times 100 under \<^verbatim>\<open>toFixed(1)\<close>, followed by
  \<^verbatim>\<open>%\<close>; a confidence not above the number 0.6 of the source gets the yellow class,
  and the green class is used exactly when the confidence is above it, which for a
  double is to be above \<open>6 / 10\<close>.
\<close>

theorem confidence_cell:
  "confidence_text \<lparr>name = ''Jane'', relation = ''Self'', confidence = js_literal (42 / 100)\<rparr>
     = Some ''42.0%''
   \<and> confidence_className \<lparr>name = ''Jane'', relation = ''Self'', confidence = js_literal (42 / 100)\<rparr>
     = ''text-lg font-mono text-yellow-400''
   \<and> (confidence res \<le> js_literal (6 / 10) \<longrightarrow>
        confidence_className res = ''text-lg font-mono text-yellow-400'')
   \<and> (confidence_className res = ''text-lg font-mono text-green-400'' \<longleftrightarrow>
        js_literal (6 / 10) < confidence res)
   \<and> (to_double (confidence res) = confidence res \<longrightarrow>
        (confidence_className res = ''text-lg font-mono text-green-400'' \<longleftrightarrow>
         6 / 10 < confidence res))
   \<and> confidence_text res = map_option (\<lambda>t. t @ ''%'') (toFixed1 (js_times (confidence res) 100))"
proof -
  have yellow: "confidence res \<le> js_literal (6 / 10) \<longrightarrow>
      confidence_className res = ''text-lg font-mono text-yellow-400''"
    by (simp add: confidence_className_def)
  have green: "confidence_className res = ''text-lg font-mono text-green-400'' \<longleftrightarrow>
      js_literal (6 / 10) < confidence res"
    by (simp add: confidence_className_def)
  have exact: "to_double (confidence res) = confidence res \<longrightarrow>
      (confidence_className res = ''text-lg font-mono text-green-400'' \<longleftrightarrow>
       6 / 10 < confidence res)"
    using green above_threshold [of "confidence res"] by blast
  have shown: "confidence_text res =
      map_option (\<lambda>t. t @ ''%'') (toFixed1 (js_times (confidence res) 100))"
    by (simp add: confidence_text_def)
  from jane_text jane_className yellow green exact shown show ?thesis by blast
qed

text \<open>
  C9 at the response of the specification, whose confidence is not above 0.6, and at a
  confidence of 0.87, which is shown as \<^verbatim>\<open>87.0%\<close> in the green class.
\<close>

theorem confidence_cell_witness:
  "confidence \<lparr>name = ''Jane'', relation = ''Self'', confidence = js_literal (42 / 100)\<rparr>
     \<le> js_literal (6 / 10)
   \<and> confidence_className \<lparr>name = ''Jane'', relation = ''Self'', confidence = js_literal (42 / 100)\<rparr>
     = ''text-lg font-mono text-yellow-400''
   \<and> confidence_text \<lparr>name = ''Jane'', relation = ''Self'', confidence = js_literal (42 / 100)\<rparr>
     = Some ''42.0%''
   \<and> to_double (confidence \<lparr>name = ''Jane'', relation = ''Self'', confidence = js_literal (87 / 100)\<rparr>)
     = confidence \<lparr>name = ''Jane'', relation = ''Self'', confidence = js_literal (87 / 100)\<rparr>
   \<and> 6 / 10 < confidence \<lparr>name = ''Jane'', relation = ''Self'', confidence = js_literal (87 / 100)\<rparr>
   \<and> confidence_className \<lparr>name = ''Jane'', relation = ''Self'', confidence = js_literal (87 / 100)\<rparr>
     = ''text-lg font-mono text-green-400''
   \<and> confidence_text \<lparr>name = ''Jane'', relation = ''Self'', confidence = js_literal (87 / 100)\<rparr>
     = Some ''87.0%''"
  using confidence_cell
    [of "\<lparr>name = ''Jane'', relation = ''Self'', confidence = js_literal (42 / 100)\<rparr>"]
    confidence_cell
    [of "\<lparr>name = ''Jane'', relation = ''Self'', confidence = js_literal (87 / 100)\<rparr>"]
    jane_below high_confidence
  by blast

end
